theory Spec2Isabelle
  imports Main
begin

section \<open>Go values: machine integers, errors, contexts\<close>

text \<open>
  Go's \<open>int\<close> is a 64-bit signed integer here (\<open>c.max = math.MaxInt64\<close> only compiles
  where it is). It is modelled as \<open>int\<close>, with the wrap-around of \<open>++\<close>, \<open>--\<close>,
  \<open>+=\<close> and \<open>-=\<close> written out by \<open>wrap64\<close>. \<open>time.Duration\<close> is an int64 count of
  nanoseconds.
\<close>

definition MaxInt64 :: int where
  "MaxInt64 = 9223372036854775807"

definition MaxInt32 :: int where
  "MaxInt32 = 2147483647"

definition wrap64 :: "int \<Rightarrow> int" where
  "wrap64 x = (x + 9223372036854775808) mod 18446744073709551616 - 9223372036854775808"

type_synonym Duration = int

definition Second :: Duration where
  "Second = 1000000000"

definition Minute :: Duration where
  "Minute = 60 * Second"

definition Hour :: Duration where
  "Hour = 60 * Minute"

text \<open>
  An \<open>error\<close> value is either built by \<open>errors.New\<close> in this package or handed over by a
  collaborator (the semaphore with the context's error, the HTTP client). A nil \<open>error\<close>
  is \<open>None\<close> of \<open>error option\<close>; calling \<open>Error()\<close> on it panics.
\<close>

datatype error = errors_New string | Foreign string

fun Error :: "error \<Rightarrow> string" where
  "Error (errors_New s) = s"
| "Error (Foreign s) = s"

text \<open>
  The contexts a caller can hand in: \<open>context.Background()\<close>, which is never done, one
  with a timeout, and one that is already cancelled. A nil context is \<open>None\<close>.
\<close>

datatype Context = Background | WithTimeout Duration | Canceled

section \<open>The counter (second version of the file, lines 112 to 168)\<close>

record counter =
  name :: string
  count :: int
  max_c :: int
  rollover :: bool

definition newCounter :: "string \<Rightarrow> int \<Rightarrow> bool \<Rightarrow> counter" where
  "newCounter nm mx ro =
     \<lparr>name = nm, count = 0, max_c = (if mx = 0 then MaxInt64 else mx), rollover = ro\<rparr>"

text \<open>\<open>Add\<close> and \<open>Remove\<close> return the error (nil is \<open>None\<close>) and the counter as they leave it.\<close>

definition counter_Add :: "counter \<Rightarrow> error option \<times> counter" where
  "counter_Add c =
     (if count c = max_c c then
        (if rollover c then (None, c\<lparr>count := wrap64 (0 + 1)\<rparr>)
         else (Some (errors_New (name c @ '' count too high.  Slow your roll!'')), c))
      else (None, c\<lparr>count := wrap64 (count c + 1)\<rparr>))"

definition counter_Remove :: "counter \<Rightarrow> error option \<times> counter" where
  "counter_Remove c =
     (if count c = 0 then
        (if rollover c then (None, c)
         else (Some (errors_New ''Too much removal''), c))
      else (None, c\<lparr>count := wrap64 (count c - 1)\<rparr>))"

definition counter_Count :: "counter \<Rightarrow> int" where
  "counter_Count c = count c"

definition counter_Max :: "counter \<Rightarrow> int" where
  "counter_Max c = max_c c"

text \<open>
  A driver for sequences of operations on one counter: it applies them in order, keeps
  every returned error, and goes on after an error as a caller holding the counter can.
\<close>

datatype counter_op = OpAdd | OpRemove

fun apply_counter_op :: "counter_op \<Rightarrow> counter \<Rightarrow> error option \<times> counter" where
  "apply_counter_op OpAdd c = counter_Add c"
| "apply_counter_op OpRemove c = counter_Remove c"

fun run_ops :: "counter \<Rightarrow> counter_op list \<Rightarrow> error option list \<times> counter" where
  "run_ops c [] = ([], c)"
| "run_ops c (x # xs) =
     (case apply_counter_op x c of
        (e, c') \<Rightarrow> (case run_ops c' xs of (es, c'') \<Rightarrow> (e # es, c'')))"

section \<open>The semaphore\<close>

text \<open>
  \<open>semaphore.Weighted\<close> of golang.org/x/sync is a collaborator, not code of this
  package. Its observable state is its size and the weight currently held. What
  \<open>Acquire\<close> answers depends on the other goroutines, so it is a parameter of the
  model: an \<open>acquirer\<close> says, for a context, a weight and the semaphore, whether \<open>Acquire\<close>
  returns (nil, or an error) or never returns. On a nil return the weight is held;
  \<open>Release\<close> gives it back.
\<close>

record Weighted =
  size :: int
  cur :: int

definition semaphore_NewWeighted :: "int \<Rightarrow> Weighted" where
  "semaphore_NewWeighted n = \<lparr>size = n, cur = 0\<rparr>"

datatype verdict = Returns "error option" | Blocks

type_synonym acquirer = "Context \<Rightarrow> int \<Rightarrow> Weighted \<Rightarrow> verdict"

definition sem_hold :: "int \<Rightarrow> Weighted \<Rightarrow> Weighted" where
  "sem_hold n s = s\<lparr>cur := cur s + n\<rparr>"

definition sem_Release :: "int \<Rightarrow> Weighted \<Rightarrow> Weighted" where
  "sem_Release n s = s\<lparr>cur := cur s - n\<rparr>"

text \<open>
  The library's \<open>Acquire\<close> seen by a caller while no other goroutine releases weight:
  it grants at once when the free weight suffices; otherwise it waits for the context,
  which a background context never ends.
\<close>

definition semaphore_Acquire :: acquirer where
  "semaphore_Acquire ctx n s =
     (if n \<le> size s - cur s then Returns None
      else (case ctx of
              Background \<Rightarrow> Blocks
            | WithTimeout d \<Rightarrow> Returns (Some (Foreign ''context deadline exceeded''))
            | Canceled \<Rightarrow> Returns (Some (Foreign ''context canceled''))))"

section \<open>The request handler (second version of the file, lines 102 to 304)\<close>

text \<open>
  The HTTP client is the execution capability: a function from the request to the pair
  \<open>(resp, err)\<close> that \<open>client.Do\<close> returns. Pointers that may be nil are options. Every
  handler built by \<open>NewRequestHandler\<close> has four counters of its own, so the counters
  are held by value.
\<close>

type_synonym ('q, 'p) client = "'q \<Rightarrow> 'p option \<times> error option"

record ('q, 'p) RequestHandler =
  client :: "('q, 'p) client option"
  sem :: "Weighted option"
  timeout :: Duration
  current :: "counter option"
  waiting :: "counter option"
  total :: "counter option"
  errs :: "counter option"

text \<open>\<open>http.DefaultClient\<close> is the first parameter.\<close>

definition NewRequestHandler ::
  "('q, 'p) client \<Rightarrow> int \<Rightarrow> Duration \<Rightarrow> ('q, 'p) client option \<Rightarrow> ('q, 'p) RequestHandler" where
  "NewRequestHandler http_DefaultClient tweight tmo cli =
     (let tweight = (if tweight < 1 then 1
                     else if tweight > MaxInt32 then MaxInt32 else tweight);
          tmo = (if tmo < 1 * Second then 1 * Minute
                 else if tmo > Hour then 1 * Minute else tmo)
      in \<lparr>client = (case cli of None \<Rightarrow> Some http_DefaultClient | Some c \<Rightarrow> Some c),
          sem = Some (semaphore_NewWeighted tweight),
          timeout = tmo,
          current = Some (newCounter ''Running'' 0 False),
          waiting = Some (newCounter ''Waiting'' 0 False),
          total = Some (newCounter ''Total'' 0 True),
          errs = Some (newCounter ''Errors'' 0 True)\<rparr>)"

text \<open>The accessors (lines 251 to 281).\<close>

definition GetWaitingWeight :: "('q, 'p) RequestHandler \<Rightarrow> int" where
  "GetWaitingWeight rh = (case waiting rh of None \<Rightarrow> 0 | Some c \<Rightarrow> counter_Count c)"

definition GetCurrentWeight :: "('q, 'p) RequestHandler \<Rightarrow> int" where
  "GetCurrentWeight rh = (case current rh of None \<Rightarrow> 0 | Some c \<Rightarrow> counter_Count c)"

definition GetErrorCount :: "('q, 'p) RequestHandler \<Rightarrow> int" where
  "GetErrorCount rh = (case errs rh of None \<Rightarrow> 0 | Some c \<Rightarrow> counter_Count c)"

definition GetTotalCount :: "('q, 'p) RequestHandler \<Rightarrow> int" where
  "GetTotalCount rh = (case total rh of None \<Rightarrow> 0 | Some c \<Rightarrow> counter_Count c)"

definition checkStruct :: "('q, 'p) RequestHandler \<Rightarrow> error option" where
  "checkStruct rh =
     (if client rh = None then
        Some (errors_New ''nil http client, use the function NewRequestHandler to build the RequestHandler struct'')
      else if sem rh = None then
        Some (errors_New ''nil semaphore, use the function NewRequestHandler to build the RequestHandler struct'')
      else if current rh = None then
        Some (errors_New ''nil current counter, use the function NewRequestHandler to build the RequestHandler struct'')
      else if waiting rh = None then
        Some (errors_New ''nil waiting counter, use the function NewRequestHandler to build the RequestHandler struct'')
      else if errs rh = None then
        Some (errors_New ''nil error counter, use the function NewRequestHandler to build the RequestHandler struct'')
      else if total rh = None then
        Some (errors_New ''nil total counter, use the function NewRequestHandler to build the RequestHandler struct'')
      else None)"

text \<open>
  What a call does: it returns \<open>(resp, err)\<close>, it panics (a method called through a nil
  pointer or on a nil \<open>error\<close>), or it never returns because \<open>Acquire\<close> does not. Each
  function gives the outcome together with the handler as the call leaves it.
\<close>

datatype 'p outcome = Return "'p option" "error option" | Panic | Blocked

text \<open>
  A method call on one of the handler's counters, written back into the handler.
  \<open>None\<close> is the nil pointer dereference of a handler that lacks the counter.
\<close>

definition waiting_Add ::
  "('q, 'p) RequestHandler \<Rightarrow> (error option \<times> ('q, 'p) RequestHandler) option" where
  "waiting_Add rh =
     (case waiting rh of None \<Rightarrow> None
      | Some c \<Rightarrow> (case counter_Add c of (e, c') \<Rightarrow> Some (e, rh\<lparr>waiting := Some c'\<rparr>)))"

definition waiting_Remove ::
  "('q, 'p) RequestHandler \<Rightarrow> (error option \<times> ('q, 'p) RequestHandler) option" where
  "waiting_Remove rh =
     (case waiting rh of None \<Rightarrow> None
      | Some c \<Rightarrow> (case counter_Remove c of (e, c') \<Rightarrow> Some (e, rh\<lparr>waiting := Some c'\<rparr>)))"

definition current_Add ::
  "('q, 'p) RequestHandler \<Rightarrow> (error option \<times> ('q, 'p) RequestHandler) option" where
  "current_Add rh =
     (case current rh of None \<Rightarrow> None
      | Some c \<Rightarrow> (case counter_Add c of (e, c') \<Rightarrow> Some (e, rh\<lparr>current := Some c'\<rparr>)))"

definition current_Remove ::
  "('q, 'p) RequestHandler \<Rightarrow> (error option \<times> ('q, 'p) RequestHandler) option" where
  "current_Remove rh =
     (case current rh of None \<Rightarrow> None
      | Some c \<Rightarrow> (case counter_Remove c of (e, c') \<Rightarrow> Some (e, rh\<lparr>current := Some c'\<rparr>)))"

definition errs_Add ::
  "('q, 'p) RequestHandler \<Rightarrow> (error option \<times> ('q, 'p) RequestHandler) option" where
  "errs_Add rh =
     (case errs rh of None \<Rightarrow> None
      | Some c \<Rightarrow> (case counter_Add c of (e, c') \<Rightarrow> Some (e, rh\<lparr>errs := Some c'\<rparr>)))"

definition total_Add ::
  "('q, 'p) RequestHandler \<Rightarrow> (error option \<times> ('q, 'p) RequestHandler) option" where
  "total_Add rh =
     (case total rh of None \<Rightarrow> None
      | Some c \<Rightarrow> (case counter_Add c of (e, c') \<Rightarrow> Some (e, rh\<lparr>total := Some c'\<rparr>)))"

text \<open>
  \<open>DoWeightedContext\<close>, lines 211 to 225: up to the increment of the waiting counter.
  \<open>Inl\<close> is a call that ends there; \<open>Inr\<close> is a call that goes on to \<open>Acquire\<close>, with the
  handler, the request, the normalised weight and the context it waits with.
\<close>

definition DoWeightedContext_enter ::
  "('q, 'p) RequestHandler \<Rightarrow> 'q option \<Rightarrow> int \<Rightarrow> Context option \<Rightarrow>
     ('p outcome \<times> ('q, 'p) RequestHandler) + (('q, 'p) RequestHandler \<times> 'q \<times> int \<times> Context)" where
  "DoWeightedContext_enter rh req weight ctx =
     (case req of
        None \<Rightarrow> Inl (Return None (Some (errors_New ''Request is nil'')), rh)
      | Some r \<Rightarrow>
          (let weight = (if weight < 1 then 1 else weight);
               ctx = (case ctx of None \<Rightarrow> Background | Some c \<Rightarrow> c)
           in case checkStruct rh of
                Some err \<Rightarrow> Inl (Return None (Some err), rh)
              | None \<Rightarrow>
                  (case waiting_Add rh of
                     None \<Rightarrow> Inl (Panic, rh)
                   | Some (Some err, rh') \<Rightarrow> Inl (Return None (Some err), rh')
                   | Some (None, rh') \<Rightarrow> Inr (rh', r, weight, ctx))))"

text \<open>
  Lines 226 to 231: \<open>Acquire\<close> returned \<open>err\<close>, not nil. The inner test reads \<open>err\<close>, as
  line 227 does, and \<open>errr.Error()\<close> is evaluated first.
\<close>

definition DoWeightedContext_refused ::
  "('q, 'p) RequestHandler \<Rightarrow> error option \<Rightarrow> 'p outcome \<times> ('q, 'p) RequestHandler" where
  "DoWeightedContext_refused rh err =
     (case waiting_Remove rh of
        None \<Rightarrow> (Panic, rh)
      | Some (errr, rh') \<Rightarrow>
          (if err \<noteq> None then
             (case errr of
                None \<Rightarrow> (Panic, rh')
              | Some e1 \<Rightarrow>
                  (case err of
                     None \<Rightarrow> (Panic, rh')
                   | Some e2 \<Rightarrow>
                       (Return None (Some (errors_New (Error e1 @ '' & '' @ Error e2))), rh')))
           else (Return None err, rh')))"

text \<open>Lines 233 to 248: the weight is held.\<close>

definition DoWeightedContext_run ::
  "('q, 'p) RequestHandler \<Rightarrow> 'q \<Rightarrow> 'p outcome \<times> ('q, 'p) RequestHandler" where
  "DoWeightedContext_run rh r =
     (case waiting_Remove rh of
        None \<Rightarrow> (Panic, rh)
      | Some (Some err, rh1) \<Rightarrow> (Return None (Some err), rh1)
      | Some (None, rh1) \<Rightarrow>
          (case current_Add rh1 of
             None \<Rightarrow> (Panic, rh1)
           | Some (Some err, rh2) \<Rightarrow> (Return None (Some err), rh2)
           | Some (None, rh2) \<Rightarrow>
               (case client rh2 of
                  None \<Rightarrow> (Panic, rh2)
                | Some cl \<Rightarrow>
                    (case cl r of
                       (resp, err) \<Rightarrow>
                         (case current_Remove rh2 of
                            None \<Rightarrow> (Panic, rh2)
                          | Some (Some errr, rh3) \<Rightarrow>
                              (case errs_Add rh3 of
                                 None \<Rightarrow> (Panic, rh3)
                               | Some (_, rh4) \<Rightarrow>
                                   (case err of
                                      None \<Rightarrow> (Panic, rh4)
                                    | Some e \<Rightarrow>
                                        (Return None
                                           (Some (errors_New (Error errr @ '' & '' @ Error e))),
                                         rh4)))
                          | Some (None, rh3) \<Rightarrow>
                              (if err \<noteq> None then (Return None err, rh3)
                               else (case total_Add rh3 of
                                       None \<Rightarrow> (Panic, rh3)
                                     | Some (_, rh4) \<Rightarrow> (Return resp None, rh4))))))))"

text \<open>
  Line 232: \<open>Acquire\<close> returned nil, so the weight is held, and the deferred \<open>Release\<close>
  runs when the rest of the function returns or panics.
\<close>

definition DoWeightedContext_admitted ::
  "('q, 'p) RequestHandler \<Rightarrow> 'q \<Rightarrow> int \<Rightarrow> 'p outcome \<times> ('q, 'p) RequestHandler" where
  "DoWeightedContext_admitted rh r weight =
     (case DoWeightedContext_run (rh\<lparr>sem := map_option (sem_hold weight) (sem rh)\<rparr>) r of
        (out, rh') \<Rightarrow> (out, rh'\<lparr>sem := map_option (sem_Release weight) (sem rh')\<rparr>))"

definition DoWeightedContext ::
  "acquirer \<Rightarrow> ('q, 'p) RequestHandler \<Rightarrow> 'q option \<Rightarrow> int \<Rightarrow> Context option \<Rightarrow>
     'p outcome \<times> ('q, 'p) RequestHandler" where
  "DoWeightedContext g rh req weight ctx =
     (case DoWeightedContext_enter rh req weight ctx of
        Inl res \<Rightarrow> res
      | Inr (rh1, r, w, c) \<Rightarrow>
          (case sem rh1 of
             None \<Rightarrow> (Panic, rh1)
           | Some s \<Rightarrow>
               (case g c w s of
                  Blocks \<Rightarrow> (Blocked, rh1)
                | Returns None \<Rightarrow> DoWeightedContext_admitted rh1 r w
                | Returns (Some err) \<Rightarrow> DoWeightedContext_refused rh1 (Some err))))"

text \<open>Lines 203 to 207 and 198 to 200. Cancelling the timeout context changes no state.\<close>

definition DoWeighted ::
  "acquirer \<Rightarrow> ('q, 'p) RequestHandler \<Rightarrow> 'q option \<Rightarrow> int \<Rightarrow> 'p outcome \<times> ('q, 'p) RequestHandler" where
  "DoWeighted g rh req weight = DoWeightedContext g rh req weight (Some (WithTimeout (timeout rh)))"

definition Do ::
  "acquirer \<Rightarrow> ('q, 'p) RequestHandler \<Rightarrow> 'q option \<Rightarrow> 'p outcome \<times> ('q, 'p) RequestHandler" where
  "Do g rh req = DoWeighted g rh req 1"

section \<open>The request handler with two guarded integers (third version, lines 324 to 430)\<close>









section \<open>Well-formed counters and test doubles\<close>

text \<open>
  The invariant of a counter: the count lies between 0 and the maximum, and the maximum
  is a positive \<open>int\<close> of Go (\<open>newCounter\<close> turns a maximum of 0 into \<open>MaxInt64\<close>).
\<close>

definition counter_ok :: "counter \<Rightarrow> bool" where
  "counter_ok c = (0 \<le> count c \<and> count c \<le> max_c c \<and> 1 \<le> max_c c \<and> max_c c \<le> MaxInt64)"

text \<open>
  A handler as \<open>NewRequestHandler\<close> builds it and as calls leave it: nothing is nil, and
  the waiting and the running counter are saturating counters within their bounds.
\<close>

definition handler_ok :: "('q, 'p) RequestHandler \<Rightarrow> bool" where
  "handler_ok rh =
     (checkStruct rh = None
      \<and> (case waiting rh of None \<Rightarrow> False | Some c \<Rightarrow> counter_ok c \<and> \<not> rollover c)
      \<and> (case current rh of None \<Rightarrow> False | Some c \<Rightarrow> counter_ok c \<and> \<not> rollover c))"

text \<open>Two clients for concrete runs: one that answers every request, one that fails.\<close>

definition echo_client :: "(string, string) client" where
  "echo_client q = (Some (''200 '' @ q), None)"

definition failing_client :: "(string, string) client" where
  "failing_client q = (None, Some (Foreign ''connection refused''))"

section \<open>Construction\<close>

lemma wrap64_id:
  "- 9223372036854775808 \<le> x \<Longrightarrow> x < 9223372036854775808 \<Longrightarrow> wrap64 x = x"
  by (simp add: wrap64_def)

lemma wrap64_one: "wrap64 1 = 1" "wrap64 (0 + 1) = 1"
  by (simp_all add: wrap64_def)

text \<open>
  C6. \<open>NewRequestHandler\<close> gives the semaphore the total weight clamped into
  \<open>[1, MaxInt32]\<close>: a weight below 1 becomes 1, one above \<open>MaxInt32\<close> becomes
  \<open>MaxInt32\<close>, any other is kept. A timeout below one second or above one hour is
  replaced by one minute, any other is kept. This holds for every integer weight and
  duration.
\<close>

theorem C6_NewRequestHandler_clamps:
  "sem (NewRequestHandler dc tw tmo cli) =
     Some (semaphore_NewWeighted (if tw < 1 then 1 else if MaxInt32 < tw then MaxInt32 else tw))
   \<and> timeout (NewRequestHandler dc tw tmo cli) =
     (if tmo < Second then Minute else if Hour < tmo then Minute else tmo)
   \<and> 1 \<le> size (semaphore_NewWeighted (if tw < 1 then 1 else if MaxInt32 < tw then MaxInt32 else tw))
   \<and> size (semaphore_NewWeighted (if tw < 1 then 1 else if MaxInt32 < tw then MaxInt32 else tw))
       \<le> MaxInt32
   \<and> Second \<le> timeout (NewRequestHandler dc tw tmo cli)
   \<and> timeout (NewRequestHandler dc tw tmo cli) \<le> Hour"
  by (simp add: NewRequestHandler_def Let_def semaphore_NewWeighted_def MaxInt32_def
      Second_def Minute_def Hour_def)

section \<open>Counters\<close>

lemma add_below_max:
  "count c = int k \<Longrightarrow> max_c c = int n \<Longrightarrow> k < n \<Longrightarrow> int n \<le> MaxInt64 \<Longrightarrow>
   counter_Add c = (None, c\<lparr>count := int (Suc k)\<rparr>)"
  by (simp add: counter_Add_def MaxInt64_def wrap64_id add.commute)

lemma add_at_max:
  "rollover c \<Longrightarrow> count c = max_c c \<Longrightarrow> counter_Add c = (None, c\<lparr>count := 1\<rparr>)"
  by (simp add: counter_Add_def wrap64_one)

lemma run_adds_rollover:
  "count c = int k \<Longrightarrow> max_c c = int n \<Longrightarrow> k + m = n \<Longrightarrow> int n \<le> MaxInt64 \<Longrightarrow>
   rollover c \<Longrightarrow>
   run_ops c (replicate (Suc m) OpAdd) = (replicate (Suc m) None, c\<lparr>count := 1\<rparr>)"
proof (induction m arbitrary: c k)
  case 0
  then show ?case by (simp add: add_at_max)
next
  case (Suc m)
  have step: "counter_Add c = (None, c\<lparr>count := int (Suc k)\<rparr>)"
    using Suc.prems by (intro add_below_max) auto
  have "run_ops (c\<lparr>count := int (Suc k)\<rparr>) (replicate (Suc m) OpAdd)
        = (replicate (Suc m) None, (c\<lparr>count := int (Suc k)\<rparr>)\<lparr>count := 1\<rparr>)"
    using Suc.prems by (intro Suc.IH) auto
  then show ?case using step by simp
qed

text \<open>
  C7. A rollover counter whose count equals its maximum takes a further \<open>Add\<close> without
  an error and ends with the count 1. Driven from zero through as many \<open>Add\<close>s as its
  maximum \<open>n\<close> and one more, a rollover counter returns no error at all and ends with
  the count 1.
\<close>

theorem C7_rollover_Add_wraps_to_one:
  "(rollover c1 \<and> count c1 = max_c c1 \<longrightarrow> counter_Add c1 = (None, c1\<lparr>count := 1\<rparr>))
   \<and> (rollover c2 \<and> count c2 = 0 \<and> max_c c2 = int n \<and> int n \<le> MaxInt64 \<longrightarrow>
        run_ops c2 (replicate n OpAdd @ [OpAdd]) = (replicate n None @ [None], c2\<lparr>count := 1\<rparr>))"
proof (intro conjI impI)
  assume "rollover c1 \<and> count c1 = max_c c1"
  then show "counter_Add c1 = (None, c1\<lparr>count := 1\<rparr>)" by (simp add: add_at_max)
next
  assume h: "rollover c2 \<and> count c2 = 0 \<and> max_c c2 = int n \<and> int n \<le> MaxInt64"
  have "run_ops c2 (replicate (Suc n) OpAdd) = (replicate (Suc n) None, c2\<lparr>count := 1\<rparr>)"
    using h by (intro run_adds_rollover [where k = 0 and n = n]) auto
  then show "run_ops c2 (replicate n OpAdd @ [OpAdd])
             = (replicate n None @ [None], c2\<lparr>count := 1\<rparr>)"
    by (simp only: replicate_append_same [symmetric] replicate.simps)
qed

theorem C7_rollover_Add_wraps_to_one_witness:
  "rollover (newCounter ''Total'' 3 True\<lparr>count := 3\<rparr>)
   \<and> count (newCounter ''Total'' 3 True\<lparr>count := 3\<rparr>)
       = max_c (newCounter ''Total'' 3 True\<lparr>count := 3\<rparr>)
   \<and> counter_Add (newCounter ''Total'' 3 True\<lparr>count := 3\<rparr>)
       = (None, newCounter ''Total'' 3 True\<lparr>count := 1\<rparr>)
   \<and> rollover (newCounter ''Total'' 3 True) \<and> count (newCounter ''Total'' 3 True) = 0
   \<and> max_c (newCounter ''Total'' 3 True) = int 3 \<and> int 3 \<le> MaxInt64
   \<and> run_ops (newCounter ''Total'' 3 True) [OpAdd, OpAdd, OpAdd, OpAdd]
       = ([None, None, None, None], newCounter ''Total'' 3 True\<lparr>count := 1\<rparr>)"
  using C7_rollover_Add_wraps_to_one
    [of "newCounter ''Total'' 3 True\<lparr>count := 3\<rparr>" "newCounter ''Total'' 3 True" 3]
  by (simp add: newCounter_def MaxInt64_def numeral_3_eq_3)

lemma counter_Add_ok: "counter_ok c \<Longrightarrow> counter_ok (snd (counter_Add c))"
  by (auto simp: counter_ok_def counter_Add_def wrap64_one wrap64_id MaxInt64_def)

lemma counter_Remove_ok: "counter_ok c \<Longrightarrow> counter_ok (snd (counter_Remove c))"
  by (auto simp: counter_ok_def counter_Remove_def wrap64_id MaxInt64_def)

lemma run_ops_ok: "counter_ok c \<Longrightarrow> counter_ok (snd (run_ops c ops))"
proof (induction ops arbitrary: c)
  case Nil
  then show ?case by simp
next
  case (Cons x xs)
  have "counter_ok (snd (apply_counter_op x c))"
    using Cons.prems by (cases x) (simp_all add: counter_Add_ok counter_Remove_ok)
  then have "counter_ok (snd (run_ops (snd (apply_counter_op x c)) xs))"
    by (rule Cons.IH)
  then show ?case by (simp add: split_beta)
qed

lemma newCounter_ok: "0 \<le> mx \<Longrightarrow> mx \<le> MaxInt64 \<Longrightarrow> counter_ok (newCounter nm mx ro)"
  by (simp add: counter_ok_def newCounter_def MaxInt64_def)

text \<open>
  C8. For every counter made by \<open>newCounter\<close> and every sequence of \<open>Add\<close> and
  \<open>Remove\<close> from its initial state, the count stays within \<open>[0, max]\<close>: \<open>Add\<close> never
  raises it above the maximum and \<open>Remove\<close> never lowers it below 0. The maximum
  argument is any \<open>int\<close> from 0 on, 0 standing for \<open>MaxInt64\<close>; the package builds its
  counters with 0 only (lines 190 to 193).
\<close>

theorem C8_count_within_bounds:
  "0 \<le> mx \<Longrightarrow> mx \<le> MaxInt64 \<Longrightarrow>
   0 \<le> count (snd (run_ops (newCounter nm mx ro) ops))
   \<and> count (snd (run_ops (newCounter nm mx ro) ops)) \<le> max_c (snd (run_ops (newCounter nm mx ro) ops))"
  using run_ops_ok [OF newCounter_ok, of mx nm ro ops] by (simp add: counter_ok_def)

theorem C8_count_within_bounds_witness:
  "(0::int) \<le> 0 \<and> 0 \<le> MaxInt64
   \<and> 0 \<le> count (snd (run_ops (newCounter ''Waiting'' 0 False) [OpRemove, OpAdd, OpAdd, OpRemove]))
   \<and> count (snd (run_ops (newCounter ''Waiting'' 0 False) [OpRemove, OpAdd, OpAdd, OpRemove]))
      \<le> max_c (snd (run_ops (newCounter ''Waiting'' 0 False) [OpRemove, OpAdd, OpAdd, OpRemove]))
   \<and> run_ops (newCounter ''Waiting'' 0 False) [OpRemove, OpAdd, OpAdd, OpRemove]
      = ([Some (errors_New ''Too much removal''), None, None, None],
         newCounter ''Waiting'' 0 False\<lparr>count := 1\<rparr>)"
  using C8_count_within_bounds [of 0 "''Waiting''" False "[OpRemove, OpAdd, OpAdd, OpRemove]"]
  by (simp add: MaxInt64_def newCounter_def counter_Add_def counter_Remove_def wrap64_def)

section \<open>Calls\<close>

lemmas handler_defs =
  NewRequestHandler_def newCounter_def semaphore_NewWeighted_def semaphore_Acquire_def
  DoWeightedContext_def DoWeightedContext_enter_def DoWeightedContext_admitted_def
  DoWeightedContext_run_def DoWeightedContext_refused_def DoWeighted_def Do_def
  checkStruct_def waiting_Add_def waiting_Remove_def current_Add_def current_Remove_def
  total_Add_def errs_Add_def counter_Add_def counter_Remove_def counter_Count_def
  GetWaitingWeight_def GetCurrentWeight_def GetErrorCount_def GetTotalCount_def
  sem_hold_def sem_Release_def wrap64_def echo_client_def failing_client_def
  Second_def Minute_def Hour_def MaxInt32_def MaxInt64_def


text \<open>
  C9. With a nil request, \<open>DoWeightedContext\<close>, \<open>DoWeighted\<close> and \<open>Do\<close> return the
  error "Request is nil" and leave the handler as it was: no counter changes, the
  semaphore holds what it held, and the answer does not depend on \<open>Acquire\<close>, which is
  not asked.
\<close>

theorem C9_nil_request_rejected:
  "DoWeightedContext g rh None weight ctx = (Return None (Some (errors_New ''Request is nil'')), rh)
   \<and> DoWeighted g rh None weight = (Return None (Some (errors_New ''Request is nil'')), rh)
   \<and> Do g rh None = (Return None (Some (errors_New ''Request is nil'')), rh)"
  by (simp add: Do_def DoWeighted_def DoWeightedContext_def DoWeightedContext_enter_def)

text \<open>
  The constructor establishes \<open>handler_ok\<close> and every call keeps it, whatever \<open>Acquire\<close>
  and the client answer.
\<close>

lemma NewRequestHandler_ok: "handler_ok (NewRequestHandler dc tw tmo cli)"
  by (cases cli) (simp_all add: handler_ok_def NewRequestHandler_def checkStruct_def counter_ok_def
      newCounter_def MaxInt64_def Let_def)

lemma Add_keeps:
  "counter_ok c \<Longrightarrow> \<not> rollover c \<Longrightarrow> counter_Add c = (e, c') \<Longrightarrow> counter_ok c' \<and> \<not> rollover c'"
  using counter_Add_ok [of c] by (auto simp: counter_Add_def split: if_splits)

lemma Remove_keeps:
  "counter_ok c \<Longrightarrow> \<not> rollover c \<Longrightarrow> counter_Remove c = (e, c') \<Longrightarrow> counter_ok c' \<and> \<not> rollover c'"
  using counter_Remove_ok [of c] by (auto simp: counter_Remove_def split: if_splits)

lemma waiting_Add_keeps: "handler_ok rh \<Longrightarrow> waiting_Add rh = Some (e, rh') \<Longrightarrow> handler_ok rh'"
  by (auto simp: handler_ok_def waiting_Add_def checkStruct_def
      split: option.splits prod.splits if_splits dest: Add_keeps)

lemma waiting_Remove_keeps: "handler_ok rh \<Longrightarrow> waiting_Remove rh = Some (e, rh') \<Longrightarrow> handler_ok rh'"
  by (auto simp: handler_ok_def waiting_Remove_def checkStruct_def
      split: option.splits prod.splits if_splits dest: Remove_keeps)

lemma current_Add_keeps: "handler_ok rh \<Longrightarrow> current_Add rh = Some (e, rh') \<Longrightarrow> handler_ok rh'"
  by (auto simp: handler_ok_def current_Add_def checkStruct_def
      split: option.splits prod.splits if_splits dest: Add_keeps)

lemma current_Remove_keeps: "handler_ok rh \<Longrightarrow> current_Remove rh = Some (e, rh') \<Longrightarrow> handler_ok rh'"
  by (auto simp: handler_ok_def current_Remove_def checkStruct_def
      split: option.splits prod.splits if_splits dest: Remove_keeps)

lemma errs_Add_keeps: "handler_ok rh \<Longrightarrow> errs_Add rh = Some (e, rh') \<Longrightarrow> handler_ok rh'"
  by (auto simp: handler_ok_def errs_Add_def checkStruct_def
      split: option.splits prod.splits if_splits)

lemma total_Add_keeps: "handler_ok rh \<Longrightarrow> total_Add rh = Some (e, rh') \<Longrightarrow> handler_ok rh'"
  by (auto simp: handler_ok_def total_Add_def checkStruct_def
      split: option.splits prod.splits if_splits)

lemma sem_update_keeps: "handler_ok rh \<Longrightarrow> handler_ok (rh\<lparr>sem := map_option f (sem rh)\<rparr>)"
  by (auto simp: handler_ok_def checkStruct_def split: if_splits)

lemmas keeps = waiting_Add_keeps waiting_Remove_keeps current_Add_keeps current_Remove_keeps
  errs_Add_keeps total_Add_keeps

lemma enter_keeps:
  "handler_ok rh \<Longrightarrow>
   (case DoWeightedContext_enter rh req weight ctx of
      Inl (out, rh') \<Rightarrow> handler_ok rh' | Inr (rh1, r, w, c) \<Rightarrow> handler_ok rh1)"
  by (auto simp: DoWeightedContext_enter_def Let_def split: option.splits dest: waiting_Add_keeps)

lemma refused_keeps: "handler_ok rh \<Longrightarrow> handler_ok (snd (DoWeightedContext_refused rh err))"
  by (auto simp: DoWeightedContext_refused_def split: option.splits dest: waiting_Remove_keeps)

lemma run_keeps:
  assumes ok: "handler_ok rh"
  shows "handler_ok (snd (DoWeightedContext_run rh r))"
proof (cases "waiting_Remove rh")
  case None
  then show ?thesis using ok by (simp add: DoWeightedContext_run_def)
next
  case (Some p1)
  obtain e1 rh1 where p1: "p1 = (e1, rh1)" by (cases p1)
  have ok1: "handler_ok rh1" using ok Some p1 by (blast dest: waiting_Remove_keeps)
  show ?thesis
  proof (cases e1)
    case (Some err)
    then show ?thesis using \<open>waiting_Remove rh = Some p1\<close> p1 ok1
      by (simp add: DoWeightedContext_run_def)
  next
    case None
    note e1 = None
    have w: "waiting_Remove rh = Some (None, rh1)" using Some p1 e1 by simp
    show ?thesis
    proof (cases "current_Add rh1")
      case None
      then show ?thesis using w ok1 by (simp add: DoWeightedContext_run_def)
    next
      case (Some p2)
      obtain e2 rh2 where p2: "p2 = (e2, rh2)" by (cases p2)
      have ok2: "handler_ok rh2" using ok1 Some p2 by (blast dest: current_Add_keeps)
      show ?thesis
      proof (cases e2)
        case (Some err)
        then show ?thesis using w \<open>current_Add rh1 = Some p2\<close> p2 ok2
          by (simp add: DoWeightedContext_run_def)
      next
        case None
        have a: "current_Add rh1 = Some (None, rh2)" using Some p2 None by simp
        show ?thesis
        proof (cases "client rh2")
          case None
          then show ?thesis using w a ok2 by (simp add: DoWeightedContext_run_def)
        next
          case (Some cl)
          obtain resp err where x: "cl r = (resp, err)" by (cases "cl r")
          show ?thesis
          proof (cases "current_Remove rh2")
            case None
            then show ?thesis using w a Some x ok2 by (simp add: DoWeightedContext_run_def)
          next
            case (Some p3)
            obtain e3 rh3 where p3: "p3 = (e3, rh3)" by (cases p3)
            have ok3: "handler_ok rh3" using ok2 Some p3 by (blast dest: current_Remove_keeps)
            have r3: "current_Remove rh2 = Some (e3, rh3)" using Some p3 by simp
            have ok4: "\<And>e rh4. errs_Add rh3 = Some (e, rh4) \<Longrightarrow> handler_ok rh4"
              using ok3 by (blast dest: errs_Add_keeps)
            have ok5: "\<And>e rh4. total_Add rh3 = Some (e, rh4) \<Longrightarrow> handler_ok rh4"
              using ok3 by (blast dest: total_Add_keeps)
            show ?thesis
              using w a \<open>client rh2 = Some cl\<close> x r3 ok3 ok4 ok5
              by (cases e3; cases err; cases "errs_Add rh3"; cases "total_Add rh3")
                (auto simp: DoWeightedContext_run_def)
          qed
        qed
      qed
    qed
  qed
qed

lemma admitted_keeps: "handler_ok rh \<Longrightarrow> handler_ok (snd (DoWeightedContext_admitted rh r w))"
  using run_keeps [OF sem_update_keeps, of rh "sem_hold w" r]
  by (auto simp: DoWeightedContext_admitted_def split: prod.splits intro: sem_update_keeps)

lemma handler_ok_kept:
  assumes "handler_ok rh"
  shows "handler_ok (snd (DoWeightedContext g rh req weight ctx))"
  using enter_keeps [OF assms, of req weight ctx]
  by (auto simp: DoWeightedContext_def refused_keeps admitted_keeps
      split: sum.splits option.splits verdict.splits prod.splits)

lemma handler_ok_parts:
  "handler_ok rh \<Longrightarrow>
   \<exists>wc cc. waiting rh = Some wc \<and> counter_ok wc \<and> \<not> rollover wc
           \<and> current rh = Some cc \<and> counter_ok cc \<and> \<not> rollover cc"
  by (auto simp: handler_ok_def split: option.splits)

lemma Add_ok_then_Remove_ok:
  assumes ok: "counter_ok c" "\<not> rollover c" and a: "counter_Add c = (None, c1)"
  shows "counter_Remove c1 = (None, c)"
proof -
  have ne: "count c \<noteq> max_c c"
    using a ok by (auto simp: counter_Add_def counter_ok_def split: if_splits)
  have c1: "c1 = c\<lparr>count := count c + 1\<rparr>"
    using a ok ne by (simp add: counter_Add_def counter_ok_def MaxInt64_def wrap64_id)
  show ?thesis using c1 ok by (simp add: counter_Remove_def counter_ok_def MaxInt64_def wrap64_id)
qed

lemma enter_Inr:
  assumes "DoWeightedContext_enter rh req weight ctx = Inr (rh1, r, w, c)"
  shows "\<exists>wc wc1. waiting rh = Some wc \<and> counter_Add wc = (None, wc1) \<and> rh1 = rh\<lparr>waiting := Some wc1\<rparr>
         \<and> req = Some r \<and> w = (if weight < 1 then 1 else weight)
         \<and> c = (case ctx of None \<Rightarrow> Background | Some x \<Rightarrow> x) \<and> checkStruct rh = None"
  using assms
  by (auto simp: DoWeightedContext_enter_def waiting_Add_def Let_def
      split: option.splits prod.splits if_splits)

lemma run_success:
  assumes run: "DoWeightedContext_run rh1 r = (Return resp None, rh')"
    and w: "waiting rh1 = Some wc1" "counter_Remove wc1 = (None, wc)"
    and c: "current rh1 = Some cc" "counter_ok cc" "\<not> rollover cc"
  shows "waiting rh' = Some wc \<and> current rh' = Some cc \<and> sem rh' = sem rh1 \<and> errs rh' = errs rh1
         \<and> client rh' = client rh1 \<and> timeout rh' = timeout rh1
         \<and> (\<exists>cl tc. client rh1 = Some cl \<and> cl r = (resp, None) \<and> total rh1 = Some tc
               \<and> total rh' = Some (snd (counter_Add tc)))"
  using assms
  by (auto simp: DoWeightedContext_run_def waiting_Remove_def current_Add_def current_Remove_def
      total_Add_def errs_Add_def dest!: Add_ok_then_Remove_ok
      split: option.splits prod.splits if_splits)

text \<open>
  C5. On a handler whose waiting and running counters are saturating counters within
  their bounds, as \<open>NewRequestHandler\<close> builds them, a call to \<open>DoWeightedContext\<close> that
  returns with a nil error leaves the waiting counter, the running counter and the held
  weight of the semaphore exactly as they were before the call, so the sum of waiting
  and in-flight weight is unchanged.
\<close>

theorem C5_success_leaks_no_weight:
  assumes w: "waiting rh = Some wc" "counter_ok wc" "\<not> rollover wc"
    and c: "current rh = Some cc" "counter_ok cc" "\<not> rollover cc"
    and ret: "DoWeightedContext g rh req weight ctx = (Return resp None, rh')"
  shows "waiting rh' = waiting rh \<and> current rh' = current rh \<and> sem rh' = sem rh
         \<and> GetWaitingWeight rh' + GetCurrentWeight rh' = GetWaitingWeight rh + GetCurrentWeight rh"
proof -
  obtain rh1 r w1 c1 where
    ent: "DoWeightedContext_enter rh req weight ctx = Inr (rh1, r, w1, c1)"
    using ret
    by (cases "DoWeightedContext_enter rh req weight ctx")
      (auto simp: DoWeightedContext_def DoWeightedContext_enter_def waiting_Add_def Let_def
        split: option.splits prod.splits if_splits)
  from enter_Inr [OF ent] w obtain wc1 where
    add: "counter_Add wc = (None, wc1)" and rh1: "rh1 = rh\<lparr>waiting := Some wc1\<rparr>"
    by auto
  have rem: "counter_Remove wc1 = (None, wc)"
    using w add by (intro Add_ok_then_Remove_ok)
  obtain s where s: "sem rh1 = Some s" and adm: "DoWeightedContext_admitted rh1 r w1 = (Return resp None, rh')"
    using ret ent
    by (auto simp: DoWeightedContext_def DoWeightedContext_refused_def waiting_Remove_def
        split: option.splits verdict.splits prod.splits if_splits)
  obtain rh2 where
    run: "DoWeightedContext_run (rh1\<lparr>sem := map_option (sem_hold w1) (sem rh1)\<rparr>) r = (Return resp None, rh2)"
    and rh': "rh' = rh2\<lparr>sem := map_option (sem_Release w1) (sem rh2)\<rparr>"
    using adm by (auto simp: DoWeightedContext_admitted_def split: prod.splits)
  have facts: "waiting rh2 = Some wc \<and> current rh2 = Some cc
               \<and> sem rh2 = sem (rh1\<lparr>sem := map_option (sem_hold w1) (sem rh1)\<rparr>)"
    using run_success [OF run, of wc1 wc cc] rem c rh1 by simp
  have "sem rh' = sem rh"
    using facts rh' s rh1 by (auto simp: sem_hold_def sem_Release_def)
  moreover have "waiting rh' = waiting rh" "current rh' = current rh"
    using facts rh' w c by simp_all
  ultimately show ?thesis
    by (simp add: GetWaitingWeight_def GetCurrentWeight_def)
qed

theorem C5_success_leaks_no_weight_witness:
  "waiting (NewRequestHandler echo_client 1 Minute None) = Some (newCounter ''Waiting'' 0 False)
   \<and> counter_ok (newCounter ''Waiting'' 0 False) \<and> \<not> rollover (newCounter ''Waiting'' 0 False)
   \<and> current (NewRequestHandler echo_client 1 Minute None) = Some (newCounter ''Running'' 0 False)
   \<and> counter_ok (newCounter ''Running'' 0 False) \<and> \<not> rollover (newCounter ''Running'' 0 False)
   \<and> DoWeightedContext semaphore_Acquire (NewRequestHandler echo_client 1 Minute None)
        (Some ''/a'') 1 None
       = (Return (Some ''200 /a'') None,
          (NewRequestHandler echo_client 1 Minute None)
            \<lparr>total := Some (newCounter ''Total'' 0 True\<lparr>count := 1\<rparr>)\<rparr>)
   \<and> waiting ((NewRequestHandler echo_client 1 Minute None)
            \<lparr>total := Some (newCounter ''Total'' 0 True\<lparr>count := 1\<rparr>)\<rparr>)
       = waiting (NewRequestHandler echo_client 1 Minute None)
   \<and> GetWaitingWeight ((NewRequestHandler echo_client 1 Minute None)
            \<lparr>total := Some (newCounter ''Total'' 0 True\<lparr>count := 1\<rparr>)\<rparr>)
       + GetCurrentWeight ((NewRequestHandler echo_client 1 Minute None)
            \<lparr>total := Some (newCounter ''Total'' 0 True\<lparr>count := 1\<rparr>)\<rparr>)
       = 0"
proof -
  let ?rh = "NewRequestHandler echo_client 1 Minute None"
  let ?rh' = "?rh\<lparr>total := Some (newCounter ''Total'' 0 True\<lparr>count := 1\<rparr>)\<rparr>"
  have w: "waiting ?rh = Some (newCounter ''Waiting'' 0 False)"
    by (simp add: NewRequestHandler_def)
  have c: "current ?rh = Some (newCounter ''Running'' 0 False)"
    by (simp add: NewRequestHandler_def)
  have okw: "counter_ok (newCounter ''Waiting'' 0 False)" "\<not> rollover (newCounter ''Waiting'' 0 False)"
    by (simp_all add: counter_ok_def newCounter_def MaxInt64_def)
  have okc: "counter_ok (newCounter ''Running'' 0 False)" "\<not> rollover (newCounter ''Running'' 0 False)"
    by (simp_all add: counter_ok_def newCounter_def MaxInt64_def)
  have run: "DoWeightedContext semaphore_Acquire ?rh (Some ''/a'') 1 None
             = (Return (Some ''200 /a'') None, ?rh')"
    by (simp add: handler_defs)
  have z: "GetWaitingWeight ?rh + GetCurrentWeight ?rh = 0"
    by (simp add: handler_defs)
  show ?thesis
    using C5_success_leaks_no_weight [OF w okw c okc run] w c okw okc run z by simp
qed

lemma Add_result:
  assumes "counter_ok c"
  shows "(counter_Add c = (Some (errors_New (name c @ '' count too high.  Slow your roll!'')), c))
         \<or> (\<exists>c1. counter_Add c = (None, c1) \<and> 1 \<le> count c1 \<and> name c1 = name c)"
  using assms
  by (auto simp: counter_Add_def counter_ok_def MaxInt64_def wrap64_id wrap64_one)

lemma Remove_positive:
  "1 \<le> count c \<Longrightarrow> fst (counter_Remove c) = None"
  by (simp add: counter_Remove_def)

lemma run_no_panic:
  assumes w: "waiting rh1 = Some wc1" "1 \<le> count wc1"
    and c: "current rh1 = Some cc" "counter_ok cc"
    and rest: "client rh1 = Some cl" "total rh1 = Some tc" "errs rh1 = Some ec"
  shows "fst (DoWeightedContext_run rh1 r) \<noteq> Panic
         \<and> fst (DoWeightedContext_run rh1 r) \<noteq> Blocked
         \<and> (\<forall>resp e. fst (DoWeightedContext_run rh1 r) = Return resp (Some e) \<longrightarrow>
               e = errors_New (name cc @ '' count too high.  Slow your roll!'') \<or> snd (cl r) = Some e)"
proof -
  have wr: "waiting_Remove rh1 = Some (None, rh1\<lparr>waiting := Some (snd (counter_Remove wc1))\<rparr>)"
    using w Remove_positive [of wc1]
    by (cases "counter_Remove wc1") (simp add: waiting_Remove_def)
  from Add_result [OF c(2)] show ?thesis
  proof
    assume "counter_Add cc = (Some (errors_New (name cc @ '' count too high.  Slow your roll!'')), cc)"
    then show ?thesis using wr c by (simp add: DoWeightedContext_run_def current_Add_def)
  next
    assume "\<exists>c1. counter_Add cc = (None, c1) \<and> 1 \<le> count c1 \<and> name c1 = name cc"
    then obtain c1 where a: "counter_Add cc = (None, c1)" and p: "1 \<le> count c1" by blast
    have "fst (counter_Remove c1) = None" using p by (rule Remove_positive)
    then obtain c2 where r: "counter_Remove c1 = (None, c2)" by (cases "counter_Remove c1") simp
    show ?thesis using wr c a r rest
      by (cases "cl r"; cases "counter_Add tc")
        (auto simp: DoWeightedContext_run_def current_Add_def current_Remove_def total_Add_def)
  qed
qed

lemma enter_nil_context:
  "DoWeightedContext_enter rh req weight None = DoWeightedContext_enter rh req weight (Some Background)"
  by (cases req) (simp_all add: DoWeightedContext_enter_def)

text \<open>
  C10. A call with a nil context is the call with \<open>context.Background()\<close>. So when
  \<open>Acquire\<close> never fails under a background context, a call with a nil context and a
  request on a handler with all its parts and counters within bounds does not panic,
  and an error it returns is the saturation error of the waiting or of the running
  counter or the error of the client, never one of the context: the call waits for the
  semaphore without a deadline.
\<close>

theorem C10_nil_context_is_background:
  "DoWeightedContext g rh req weight None = DoWeightedContext g rh req weight (Some Background)
   \<and> ((\<forall>n s e. g Background n s \<noteq> Returns (Some e))
        \<and> client rh = Some cl \<and> sem rh = Some s0 \<and> total rh = Some tc \<and> errs rh = Some ec
        \<and> waiting rh = Some wc \<and> counter_ok wc \<and> current rh = Some cc \<and> counter_ok cc \<longrightarrow>
       fst (DoWeightedContext g rh (Some r) weight None) \<noteq> Panic
       \<and> (\<forall>resp e. fst (DoWeightedContext g rh (Some r) weight None) = Return resp (Some e) \<longrightarrow>
             e = errors_New (name wc @ '' count too high.  Slow your roll!'')
             \<or> e = errors_New (name cc @ '' count too high.  Slow your roll!'')
             \<or> snd (cl r) = Some e))"
proof (intro conjI impI)
  show "DoWeightedContext g rh req weight None = DoWeightedContext g rh req weight (Some Background)"
    by (simp add: DoWeightedContext_def enter_nil_context)
next
  assume h: "(\<forall>n s e. g Background n s \<noteq> Returns (Some e))
        \<and> client rh = Some cl \<and> sem rh = Some s0 \<and> total rh = Some tc \<and> errs rh = Some ec
        \<and> waiting rh = Some wc \<and> counter_ok wc \<and> current rh = Some cc \<and> counter_ok cc"
  let ?w = "if weight < 1 then 1 else weight"
  have cs: "checkStruct rh = None" using h by (simp add: checkStruct_def)
  have "fst (DoWeightedContext g rh (Some r) weight None) \<noteq> Panic
       \<and> (\<forall>resp e. fst (DoWeightedContext g rh (Some r) weight None) = Return resp (Some e) \<longrightarrow>
             e = errors_New (name wc @ '' count too high.  Slow your roll!'')
             \<or> e = errors_New (name cc @ '' count too high.  Slow your roll!'')
             \<or> snd (cl r) = Some e)"
  proof (rule disjE [OF Add_result [of wc]])
    show "counter_ok wc" using h by simp
  next
    assume "counter_Add wc = (Some (errors_New (name wc @ '' count too high.  Slow your roll!'')), wc)"
    then show ?thesis using h cs
      by (simp add: DoWeightedContext_def DoWeightedContext_enter_def waiting_Add_def)
  next
    assume "\<exists>c1. counter_Add wc = (None, c1) \<and> 1 \<le> count c1 \<and> name c1 = name wc"
    then obtain c1 where a: "counter_Add wc = (None, c1)" and p: "1 \<le> count c1" by blast
    let ?rh1 = "rh\<lparr>waiting := Some c1\<rparr>"
    have ent: "DoWeightedContext_enter rh (Some r) weight None = Inr (?rh1, r, ?w, Background)"
      using h cs a by (simp add: DoWeightedContext_enter_def waiting_Add_def)
    let ?rh2 = "?rh1\<lparr>sem := map_option (sem_hold ?w) (sem ?rh1)\<rparr>"
    have np: "fst (DoWeightedContext_run ?rh2 r) \<noteq> Panic
         \<and> fst (DoWeightedContext_run ?rh2 r) \<noteq> Blocked
         \<and> (\<forall>resp e. fst (DoWeightedContext_run ?rh2 r) = Return resp (Some e) \<longrightarrow>
               e = errors_New (name cc @ '' count too high.  Slow your roll!'') \<or> snd (cl r) = Some e)"
      using h p by (intro run_no_panic [where ?wc1.0 = c1 and tc = tc and ec = ec]) simp_all
    have adm: "fst (DoWeightedContext_admitted ?rh1 r ?w) = fst (DoWeightedContext_run ?rh2 r)"
      by (simp add: DoWeightedContext_admitted_def split_beta)
    show ?thesis
    proof (cases "g Background ?w s0")
      case Blocks
      then show ?thesis using ent h by (simp add: DoWeightedContext_def)
    next
      case (Returns eo)
      then have "eo = None" using h by (cases eo) auto
      then show ?thesis using Returns ent h np adm by (simp add: DoWeightedContext_def)
    qed
  qed
  then show "fst (DoWeightedContext g rh (Some r) weight None) \<noteq> Panic"
    and "\<forall>resp e. fst (DoWeightedContext g rh (Some r) weight None) = Return resp (Some e) \<longrightarrow>
             e = errors_New (name wc @ '' count too high.  Slow your roll!'')
             \<or> e = errors_New (name cc @ '' count too high.  Slow your roll!'')
             \<or> snd (cl r) = Some e"
    by blast+
qed

theorem C10_nil_context_is_background_witness:
  "(\<forall>n s e. semaphore_Acquire Background n s \<noteq> Returns (Some e))
   \<and> client (NewRequestHandler echo_client 1 Minute None) = Some echo_client
   \<and> sem (NewRequestHandler echo_client 1 Minute None) = Some (semaphore_NewWeighted 1)
   \<and> total (NewRequestHandler echo_client 1 Minute None) = Some (newCounter ''Total'' 0 True)
   \<and> errs (NewRequestHandler echo_client 1 Minute None) = Some (newCounter ''Errors'' 0 True)
   \<and> waiting (NewRequestHandler echo_client 1 Minute None) = Some (newCounter ''Waiting'' 0 False)
   \<and> counter_ok (newCounter ''Waiting'' 0 False)
   \<and> current (NewRequestHandler echo_client 1 Minute None) = Some (newCounter ''Running'' 0 False)
   \<and> counter_ok (newCounter ''Running'' 0 False)
   \<and> fst (DoWeightedContext semaphore_Acquire (NewRequestHandler echo_client 1 Minute None)
             (Some ''/a'') 2 None) \<noteq> Panic
   \<and> fst (DoWeightedContext semaphore_Acquire (NewRequestHandler echo_client 1 Minute None)
             (Some ''/a'') 2 None) = Blocked
   \<and> fst (DoWeightedContext semaphore_Acquire (NewRequestHandler echo_client 1 Minute None)
             (Some ''/a'') 1 None) = Return (Some ''200 /a'') None"
proof -
  let ?rh = "NewRequestHandler echo_client 1 Minute None :: (string, string) RequestHandler"
  have g: "\<forall>n s e. semaphore_Acquire Background n s \<noteq> Returns (Some e)"
    by (simp add: semaphore_Acquire_def)
  have f: "client ?rh = Some echo_client" "sem ?rh = Some (semaphore_NewWeighted 1)"
    "total ?rh = Some (newCounter ''Total'' 0 True)" "errs ?rh = Some (newCounter ''Errors'' 0 True)"
    "waiting ?rh = Some (newCounter ''Waiting'' 0 False)"
    "current ?rh = Some (newCounter ''Running'' 0 False)"
    by (simp_all add: NewRequestHandler_def MaxInt32_def)
  have ok: "counter_ok (newCounter ''Waiting'' 0 False)" "counter_ok (newCounter ''Running'' 0 False)"
    by (simp_all add: counter_ok_def newCounter_def MaxInt64_def)
  have b: "fst (DoWeightedContext semaphore_Acquire ?rh (Some ''/a'') 2 None) = Blocked"
    by (simp add: handler_defs)
  have r: "fst (DoWeightedContext semaphore_Acquire ?rh (Some ''/a'') 1 None) = Return (Some ''200 /a'') None"
    by (simp add: handler_defs)
  have "fst (DoWeightedContext semaphore_Acquire ?rh (Some ''/a'') 2 None) \<noteq> Panic"
    using C10_nil_context_is_background
      [of semaphore_Acquire ?rh "Some ''/a''" 2 echo_client "semaphore_NewWeighted 1"
          "newCounter ''Total'' 0 True" "newCounter ''Errors'' 0 True"
          "newCounter ''Waiting'' 0 False" "newCounter ''Running'' 0 False" "''/a''"]
      g f ok by blast
  then show ?thesis using g f ok b r by simp
qed

section \<open>The weight guard of the third version\<close>




section \<open>Where the second version departs from its documentation\<close>

text \<open>
  Line 227 tests \<open>err\<close>, the error of \<open>Acquire\<close>, which is not nil in that branch,
  where \<open>errr\<close>, the error of \<open>waiting.Remove\<close>, is meant. On a handler whose waiting
  counter is a saturating counter within its bounds, \<open>Remove\<close> succeeds after the
  \<open>Add\<close> of line 223, so every failed acquisition calls \<open>Error()\<close> on a nil error.
\<close>

lemma acquire_failure_panics:
  assumes cs: "checkStruct rh = None"
    and w: "waiting rh = Some wc" "counter_ok wc" "\<not> rollover wc" "count wc < max_c wc"
    and s: "sem rh = Some s0"
    and g: "g (case ctx of None \<Rightarrow> Background | Some c \<Rightarrow> c)
              (if weight < 1 then 1 else weight) s0 = Returns (Some e)"
  shows "DoWeightedContext g rh (Some r) weight ctx = (Panic, rh)"
proof -
  obtain wc1 where a: "counter_Add wc = (None, wc1)"
    using w by (auto simp: counter_Add_def)
  have r: "counter_Remove wc1 = (None, wc)"
    using w a by (intro Add_ok_then_Remove_ok)
  have ent: "DoWeightedContext_enter rh (Some r) weight ctx
             = Inr (rh\<lparr>waiting := Some wc1\<rparr>, r, if weight < 1 then 1 else weight,
                    case ctx of None \<Rightarrow> Background | Some c \<Rightarrow> c)"
    using cs w a by (simp add: DoWeightedContext_enter_def waiting_Add_def)
  have "rh\<lparr>waiting := Some wc1\<rparr>\<lparr>waiting := Some wc\<rparr> = rh"
    using w by simp
  then show ?thesis
    using ent s g r
    by (simp add: DoWeightedContext_def DoWeightedContext_refused_def waiting_Remove_def)
qed

text \<open>
  C2. The claim asks that a failed acquisition returns the acquisition error, combined
  with the error of the decrement only when the decrement fails, and never crashes.
  The code, on a fresh handler of total weight 1 and a request of weight 2:
  \<open>Acquire\<close> fails with the deadline of \<open>DoWeighted\<close> (or with a cancelled context), the
  waiting counter is decremented back to 0, and the call panics instead of returning
  the error.
\<close>

theorem C2_acquire_failure_panics:
  "semaphore_Acquire (WithTimeout Minute) 2 (semaphore_NewWeighted 1)
     = Returns (Some (Foreign ''context deadline exceeded''))
   \<and> fst (DoWeighted semaphore_Acquire (NewRequestHandler echo_client 1 Minute None) (Some ''/a'') 2)
     = Panic
   \<and> fst (DoWeightedContext semaphore_Acquire (NewRequestHandler echo_client 1 Minute None)
            (Some ''/a'') 2 (Some Canceled)) = Panic
   \<and> GetWaitingWeight (snd (DoWeighted semaphore_Acquire
        (NewRequestHandler echo_client 1 Minute None) (Some ''/a'') 2)) = 0"
  by (simp add: handler_defs)

text \<open>
  C3. The claim asks that a failure of \<open>client.Do\<close> increments the error counter once.
  The code, on a fresh handler whose client fails: the call is admitted, the client's
  error is returned, and every counter is as before the call, the error counter at 0;
  line 241 increments it only when \<open>current.Remove\<close> fails. With a client that
  succeeds, the response is returned and the total counter goes from 0 to 1.
\<close>

theorem C3_execution_error_not_counted:
  "DoWeightedContext semaphore_Acquire (NewRequestHandler echo_client 1 Minute (Some failing_client))
       (Some ''/a'') 1 None
     = (Return None (Some (Foreign ''connection refused'')),
        NewRequestHandler echo_client 1 Minute (Some failing_client))
   \<and> GetErrorCount (snd (DoWeightedContext semaphore_Acquire
        (NewRequestHandler echo_client 1 Minute (Some failing_client)) (Some ''/a'') 1 None)) = 0
   \<and> GetErrorCount (NewRequestHandler echo_client 1 Minute (Some failing_client)) = 0
   \<and> fst (DoWeightedContext semaphore_Acquire (NewRequestHandler echo_client 1 Minute None)
            (Some ''/a'') 1 None) = Return (Some ''200 /a'') None
   \<and> GetTotalCount (snd (DoWeightedContext semaphore_Acquire
        (NewRequestHandler echo_client 1 Minute None) (Some ''/a'') 1 None)) = 1
   \<and> GetTotalCount (NewRequestHandler echo_client 1 Minute None) = 0"
  by (simp add: handler_defs)

text \<open>
  When the waiting counter is saturated, the call returns the counter's error, leaves
  the handler as it was and does not depend on \<open>Acquire\<close>, which is not called.
\<close>

lemma waiting_saturated_no_acquire:
  assumes "checkStruct rh = None" "waiting rh = Some wc" "\<not> rollover wc" "count wc = max_c wc"
  shows "DoWeightedContext g rh (Some r) weight ctx
         = (Return None (Some (errors_New (name wc @ '' count too high.  Slow your roll!''))), rh)"
  using assms
  by (simp add: DoWeightedContext_def DoWeightedContext_enter_def waiting_Add_def counter_Add_def)

text \<open>
  C4. The claim asks that a call reaching the waiting stage raises the waiting counter
  by its weight. The code, on a fresh handler of total weight 10 and a request of
  weight 5: the call goes on to \<open>Acquire\<close> with weight 5 and with the waiting counter at
  1, which is what \<open>GetWaitingWeight\<close> then reports.
\<close>

theorem C4_waiting_counts_calls:
  "DoWeightedContext_enter (NewRequestHandler echo_client 10 Minute None) (Some ''/a'') 5 None
     = Inr ((NewRequestHandler echo_client 10 Minute None)
              \<lparr>waiting := Some (newCounter ''Waiting'' 0 False\<lparr>count := 1\<rparr>)\<rparr>,
            ''/a'', 5, Background)
   \<and> GetWaitingWeight ((NewRequestHandler echo_client 10 Minute None)
              \<lparr>waiting := Some (newCounter ''Waiting'' 0 False\<lparr>count := 1\<rparr>)\<rparr>) = 1"
  by (simp add: handler_defs)

end
